theory Spec2Isabelle
  imports Main "HOL-Library.Word"
begin

section \<open>Go values shared by the source files\<close>

text \<open>
  \<open>config.ReleaseSettings\<close> is declared outside the source files at hand; the fields
  are those the source reads.
\<close>

record ReleaseSettings =
  Name :: string
  Repository :: string
  RepositoryOwner :: string
  Draft :: bool
  Prerelease :: bool
  ReleaseNotesFilename :: string
  GenerateReleaseNotesOnHost :: bool

text \<open>
  Go's \<open>error\<close> is an interface. The error values that the source files create or
  inspect are the constructors of \<open>err\<close>:
  \<^item> \<open>Errorf fmt args\<close>: the value of \<open>fmt.Errorf(fmt, args...)\<close> where no operand is
    wrapped. The format string and its operands are kept apart (the text is not
    rendered). It has no \<open>Unwrap\<close> method.
  \<^item> \<open>Wrapf fmt e\<close>: the value of \<open>fmt.Errorf(fmt, e)\<close> where \<open>fmt\<close> has one \<open>%w\<close> verb
    for the non-nil error \<open>e\<close>; also any library error whose \<open>Unwrap\<close> gives \<open>e\<close>.
  \<^item> \<open>TemporaryError e\<close>: the struct \<open>TemporaryError{e}\<close> of the source. Its only field is
    the embedded interface \<open>error\<close>, which may be nil (\<open>None\<close>). The embedding promotes
    the method \<open>Error\<close> only: the struct has neither \<open>Unwrap\<close> nor \<open>Is\<close>.
  \<^item> \<open>DeadlineExceeded\<close>, \<open>Canceled\<close>: the two sentinel errors of package \<open>context\<close>.
  \<^item> \<open>External n\<close>: an error value produced outside these files (the operating system,
    the HTTP client library), opaque, with no \<open>Unwrap\<close>.
\<close>

datatype arg = IntArg int | StrArg string | DurationArg int | SettingsArg ReleaseSettings | NilArg

datatype err =
    Errorf string "arg list"
  | Wrapf string err
  | TemporaryError "err option"
  | DeadlineExceeded
  | Canceled
  | External nat

text \<open>
  \<open>errors.Is(e, target)\<close>: \<open>e\<close> matches when it equals \<open>target\<close>; otherwise the chain is
  followed through \<open>Unwrap\<close>, which only \<open>Wrapf\<close> has. Every target used in the source
  is a value compared by content (\<open>TemporaryError{}\<close>, \<open>context.DeadlineExceeded\<close>) or a
  unique global (\<open>context.Canceled\<close>).
\<close>

fun errors_Is :: "err \<Rightarrow> err \<Rightarrow> bool" where
  "errors_Is (Wrapf f e) target = (Wrapf f e = target \<or> errors_Is e target)"
| "errors_Is e target = (e = target)"

text \<open>A call either returns or panics (a nil dereference).\<close>

datatype 'a go = Panics string | Returns 'a

type_synonym int64 = "64 word"

text \<open>
  What a function does to the outside is logged, in order: reading a file or the
  environment, writing to standard output, the two calls to the remote release service,
  opening and closing the asset file.
\<close>

datatype osFile = OsFile string

fun File_Name :: "osFile \<Rightarrow> string" where
  "File_Name (OsFile name) = name"

record RepositoryRelease =
  TagName :: "string option"
  TargetCommitish :: "string option"
  relName :: "string option"
  Body :: "string option"
  relDraft :: bool
  relPrerelease :: bool
  GenerateReleaseNotes :: bool

datatype io =
    Getenv string
  | ReadFile string
  | Printf string "arg list"
  | CreateReleaseCall string string RepositoryRelease
  | UploadReleaseAssetCall string string int64 string osFile
  | OpenFile
  | CloseFile "osFile option"

fun isNetwork :: "io \<Rightarrow> bool" where
  "isNetwork (CreateReleaseCall owner repo r) = True"
| "isNetwork (UploadReleaseAssetCall owner repo ident name f) = True"
| "isNetwork ev = False"

section \<open>Temporary-failure classifier (\<open>isTemporaryHttpStatus\<close>)\<close>

definition StatusBadRequest :: int where
  "StatusBadRequest = 400"

definition StatusUnprocessableEntity :: int where
  "StatusUnprocessableEntity = 422"

definition StatusCreated :: int where
  "StatusCreated = 201"

definition isTemporaryHttpStatus :: "int \<Rightarrow> bool" where
  "isTemporaryHttpStatus status =
     (if status = StatusUnprocessableEntity \<or> status = StatusBadRequest then False else True)"

section \<open>Release publishing client (package \<open>releases\<close>)\<close>

text \<open>
  The remote release service, as the two calls of the client library that the source
  makes. Each answers with a response (nil when no HTTP response was received) and an
  error; \<open>CreateRelease\<close> also with the created release, of which the source reads the
  identifier through two pointers (\<open>None\<close> when either is nil).
\<close>

record Response =
  StatusCode :: int

record Repositories =
  CreateRelease ::
    "string \<Rightarrow> string \<Rightarrow> RepositoryRelease \<Rightarrow> int64 option \<times> Response option \<times> err option"
  UploadReleaseAsset ::
    "string \<Rightarrow> string \<Rightarrow> int64 \<Rightarrow> string \<Rightarrow> osFile \<Rightarrow> Response option \<times> err option"

datatype githubClient = github_NewClient string

record GitHubClient =
  client :: githubClient

record FakeClient =
  releaseID :: int64

datatype Client = GitHubClientC GitHubClient | FakeClientC FakeClient

text \<open>
  Modelled from the spec: package \<open>releasetypes\<close> is not among the source files. The
  spec speaks of a declared release-service type of which one variant is supported;
  \<open>GitHub\<close> is that variant and \<open>OtherType n\<close> stands for every other value.
\<close>

datatype releasetype = GitHub | OtherType nat

definition tokenEnvVar :: string where
  "tokenEnvVar = ''GITHUB_TOKEN''"

definition NewClient ::
  "(string \<Rightarrow> string) \<Rightarrow> releasetype \<Rightarrow> (Client option \<times> err option) \<times> io list" where
  "NewClient getenv typ =
     (if typ \<noteq> GitHub then
        ((None, Some (Errorf ''github: only github is supported for now'' [])), [])
      else
        let token = getenv tokenEnvVar in
        if token = '''' then
          ((None, Some (Errorf ''github: missing %q env var'' [StrArg tokenEnvVar])),
           [Getenv tokenEnvVar])
        else if token = ''faketoken'' then
          ((Some (FakeClientC \<lparr>releaseID = 0\<rparr>), None), [Getenv tokenEnvVar])
        else
          ((Some (GitHubClientC \<lparr>client = github_NewClient token\<rparr>), None),
           [Getenv tokenEnvVar]))"

text \<open>The closure \<open>s\<close> of \<open>GitHubClient.Release\<close>: nil for the empty string.\<close>

definition Release_s :: "string \<Rightarrow> string option" where
  "Release_s str = (if str = '''' then None else Some str)"

definition releaseRequest :: "string \<Rightarrow> string \<Rightarrow> ReleaseSettings \<Rightarrow> string \<Rightarrow> RepositoryRelease" where
  "releaseRequest tagName committish settings body =
     \<lparr>TagName = Release_s tagName, TargetCommitish = Release_s committish,
      relName = Release_s (Name settings), Body = Release_s body,
      relDraft = Draft settings, relPrerelease = Prerelease settings,
      GenerateReleaseNotes = GenerateReleaseNotesOnHost settings\<rparr>"

text \<open>
  The part of \<open>GitHubClient.Release\<close> after the release notes are read: the request is
  built and submitted, and the answer inspected. \<open>io1\<close> is what was logged before.
\<close>

definition Release_submit ::
  "Repositories \<Rightarrow> string \<Rightarrow> string \<Rightarrow> ReleaseSettings \<Rightarrow> string \<Rightarrow> io list \<Rightarrow>
     (int64 \<times> err option) go \<times> io list" where
  "Release_submit api tagName committish settings body io1 =
     (let r = releaseRequest tagName committish settings body;
          io2 = io1 @ [CreateReleaseCall (RepositoryOwner settings) (Repository settings) r]
      in (case CreateRelease api (RepositoryOwner settings) (Repository settings) r of
            (rel, resp, Some e) \<Rightarrow> (Returns (0, Some e), io2)
          | (rel, None, None) \<Rightarrow> (Panics ''nil pointer dereference'', io2)
          | (rel, Some rs, None) \<Rightarrow>
              (if StatusCode rs \<noteq> StatusCreated then
                 (Returns (0, Some (Errorf ''github: unexpected status code: %d''
                                      [IntArg (StatusCode rs)])), io2)
               else
                 (case rel of
                    None \<Rightarrow> (Panics ''nil pointer dereference'', io2)
                  | Some ident \<Rightarrow> (Returns (ident, None), io2)))))"

definition GitHubClient_Release ::
  "(string \<Rightarrow> err + string) \<Rightarrow> Repositories \<Rightarrow> GitHubClient \<Rightarrow> string \<Rightarrow> string \<Rightarrow>
     ReleaseSettings \<Rightarrow> (int64 \<times> err option) go \<times> io list" where
  "GitHubClient_Release readFile api c tagName committish settings =
     (if ReleaseNotesFilename settings \<noteq> '''' then
        (case readFile (ReleaseNotesFilename settings) of
           Inl e \<Rightarrow> (Returns (0, Some e), [ReadFile (ReleaseNotesFilename settings)])
         | Inr b \<Rightarrow>
             Release_submit api tagName committish settings b
               [ReadFile (ReleaseNotesFilename settings)])
      else Release_submit api tagName committish settings '''' [])"

text \<open>\<open>filepath.Base\<close> with \<open>/\<close> as the separator.\<close>

definition filepath_Base :: "string \<Rightarrow> string" where
  "filepath_Base path =
     (if path = '''' then ''.''
      else
        let stripped = rev (dropWhile (\<lambda>c. c = CHR ''/'') (rev path));
            last_elem = rev (takeWhile (\<lambda>c. c \<noteq> CHR ''/'') (rev stripped))
        in if last_elem = '''' then ''/'' else last_elem)"

definition GitHubClient_UploadAssetsFile ::
  "Repositories \<Rightarrow> GitHubClient \<Rightarrow> ReleaseSettings \<Rightarrow> osFile option \<Rightarrow> int64 \<Rightarrow>
     (err option) go \<times> io list" where
  "GitHubClient_UploadAssetsFile api c settings f ident =
     (case f of
        None \<Rightarrow> (Panics ''nil pointer dereference'', [])
      | Some file \<Rightarrow>
          let name = filepath_Base (File_Name file);
              io1 = [UploadReleaseAssetCall (RepositoryOwner settings) (Repository settings)
                       ident name file]
          in case UploadReleaseAsset api (RepositoryOwner settings) (Repository settings)
                    ident name file of
               (resp, None) \<Rightarrow> (Returns None, io1)
             | (Some rs, Some e) \<Rightarrow>
                 if \<not> isTemporaryHttpStatus (StatusCode rs) then (Returns (Some e), io1)
                 else (Returns (Some (TemporaryError (Some e))), io1)
             | (None, Some e) \<Rightarrow> (Returns (Some (TemporaryError (Some e))), io1))"

text \<open>
  \<open>FakeClient.Release\<close>. \<open>drawn\<close> is the value that \<open>rand.Int63()\<close> returns in this call:
  by the library's contract a non-negative 63-bit integer. The method has a pointer
  receiver, so the updated client is returned as well.
\<close>

definition FakeClient_Release ::
  "FakeClient \<Rightarrow> int64 \<Rightarrow> string \<Rightarrow> string \<Rightarrow> ReleaseSettings \<Rightarrow>
     ((int64 \<times> err option) \<times> FakeClient) \<times> io list" where
  "FakeClient_Release c drawn tagName committish settings =
     (let c' = c\<lparr>releaseID := drawn\<rparr>
      in (((releaseID c', None), c'),
          [Printf ''fake: release: tag:%s committish:%s %#v\<newline>''
             [StrArg tagName, StrArg committish, SettingsArg settings]]))"

definition FakeClient_UploadAssetsFile ::
  "FakeClient \<Rightarrow> ReleaseSettings \<Rightarrow> osFile option \<Rightarrow> int64 \<Rightarrow> err option" where
  "FakeClient_UploadAssetsFile c settings f ident =
     (if releaseID c \<noteq> ident then
        Some (Errorf ''fake: releaseID mismatch: %d != %d''
                [IntArg (sint (releaseID c)), IntArg (sint ident)])
      else if f = None then Some (Errorf ''fake: nil file'' [])
      else None)"

text \<open>The method \<open>UploadAssetsFile\<close> of the interface \<open>Client\<close>, by the variant.\<close>

fun Client_UploadAssetsFile ::
  "Repositories \<Rightarrow> Client \<Rightarrow> ReleaseSettings \<Rightarrow> osFile option \<Rightarrow> int64 \<Rightarrow>
     (err option) go \<times> io list" where
  "Client_UploadAssetsFile api (GitHubClientC c) settings f ident =
     GitHubClient_UploadAssetsFile api c settings f ident"
| "Client_UploadAssetsFile api (FakeClientC c) settings f ident =
     (Returns (FakeClient_UploadAssetsFile c settings f ident), [])"

text \<open>
  The function literal that \<open>UploadAssetsFileWithRetries\<close> hands to \<open>withRetries\<close>: one
  attempt, answering the error and whether the attempt may be retried. \<open>openFile\<close> is the
  caller's closure and \<open>upload\<close> the client's method with all but the file supplied. The
  deferred \<open>f.Close()\<close> runs when the attempt returns and when it panics.
\<close>

definition uploadAttempt ::
  "(unit \<Rightarrow> osFile option \<times> err option) \<Rightarrow> (osFile option \<Rightarrow> (err option) go \<times> io list) \<Rightarrow>
     (err option \<times> bool) go \<times> io list" where
  "uploadAttempt openFile upload =
     (case openFile () of
        (f, Some e) \<Rightarrow> (Returns (Some e, False), [OpenFile])
      | (f, None) \<Rightarrow>
          (case upload f of
             (Panics msg, io1) \<Rightarrow> (Panics msg, [OpenFile] @ io1 @ [CloseFile f])
           | (Returns uerr, io1) \<Rightarrow>
               if uerr \<noteq> None \<and> errors_Is (the uerr) (TemporaryError None)
               then (Returns (uerr, True), [OpenFile] @ io1 @ [CloseFile f])
               else (Returns (uerr, False), [OpenFile] @ io1 @ [CloseFile f])))"

definition UploadAssetsFile_attempt ::
  "Repositories \<Rightarrow> Client \<Rightarrow> ReleaseSettings \<Rightarrow> int64 \<Rightarrow> (unit \<Rightarrow> osFile option \<times> err option) \<Rightarrow>
     (err option \<times> bool) go \<times> io list" where
  "UploadAssetsFile_attempt api cl settings ident openFile =
     uploadAttempt openFile (\<lambda>f. Client_UploadAssetsFile api cl settings f ident)"

section \<open>Top-level run (\<open>parseAndRun\<close> of \<open>main.go\<close>)\<close>




section \<open>Command handler pipeline (\<open>cmd/allcmd/allcmd.go\<close>)\<close>

record ('c, 'w) CommandHandler =
  Init :: "'w \<Rightarrow> err option \<times> 'w"
  Exec :: "'c \<Rightarrow> string list \<Rightarrow> 'w \<Rightarrow> err option \<times> 'w"

datatype call = InitCall nat "err option" | ExecCall nat "err option"

fun initHandlers ::
  "('c, 'w) CommandHandler list \<Rightarrow> nat \<Rightarrow> 'w \<Rightarrow> call list \<Rightarrow> err option \<times> call list \<times> 'w" where
  "initHandlers [] i w tr = (None, tr, w)"
| "initHandlers (h # hs) i w tr =
     (case Init h w of
        (Some e, w') \<Rightarrow> (Some e, tr @ [InitCall i (Some e)], w')
      | (None, w') \<Rightarrow> initHandlers hs (Suc i) w' (tr @ [InitCall i None]))"

fun execHandlers ::
  "('c, 'w) CommandHandler list \<Rightarrow> 'c \<Rightarrow> string list \<Rightarrow> nat \<Rightarrow> 'w \<Rightarrow> call list \<Rightarrow>
     err option \<times> call list \<times> 'w" where
  "execHandlers [] ctx args i w tr = (None, tr, w)"
| "execHandlers (h # hs) ctx args i w tr =
     (case Exec h ctx args w of
        (Some e, w') \<Rightarrow> (Some e, tr @ [ExecCall i (Some e)], w')
      | (None, w') \<Rightarrow> execHandlers hs ctx args (Suc i) w' (tr @ [ExecCall i None]))"

definition runHandlers ::
  "('c, 'w) CommandHandler list \<Rightarrow> 'c \<Rightarrow> string list \<Rightarrow> 'w \<Rightarrow> err option \<times> call list \<times> 'w" where
  "runHandlers commandHandlers ctx args w =
     (case initHandlers commandHandlers 0 w [] of
        (Some e, tr, w') \<Rightarrow> (Some e, tr, w')
      | (None, tr, w') \<Rightarrow> execHandlers commandHandlers ctx args 0 w' tr)"

definition commandName :: string where
  "commandName = ''all''"

record ('c, 'w) all =
  infoLog :: "(string \<times> string) option"
  builder :: "('c, 'w) CommandHandler"
  archivist :: "('c, 'w) CommandHandler"
  releaser :: "('c, 'w) CommandHandler"

definition all_Init :: "('c, 'w) all \<Rightarrow> err option \<times> ('c, 'w) all" where
  "all_Init a = (None, a\<lparr>infoLog := Some (''all'', commandName)\<rparr>)"

definition all_Exec ::
  "('c, 'w) all \<Rightarrow> 'c \<Rightarrow> string list \<Rightarrow> 'w \<Rightarrow> err option \<times> call list \<times> 'w" where
  "all_Exec a ctx args w =
     (case all_Init a of
        (Some e, a') \<Rightarrow> (Some e, [], w)
      | (None, a') \<Rightarrow> runHandlers [builder a', archivist a', releaser a'] ctx args w)"

section \<open>Concrete inputs\<close>

definition initError :: err where
  "initError = Errorf ''archive: no archive settings'' []"

definition execError :: err where
  "execError = Errorf ''archive: disk full'' []"

definition goodHandler :: "(unit, nat) CommandHandler" where
  "goodHandler = \<lparr>Init = (\<lambda>w. (None, Suc w)), Exec = (\<lambda>ctx args w. (None, Suc w))\<rparr>"

definition initFailsHandler :: "(unit, nat) CommandHandler" where
  "initFailsHandler =
     \<lparr>Init = (\<lambda>w. (Some initError, w)), Exec = (\<lambda>ctx args w. (None, Suc w))\<rparr>"

definition execFailsHandler :: "(unit, nat) CommandHandler" where
  "execFailsHandler =
     \<lparr>Init = (\<lambda>w. (None, Suc w)), Exec = (\<lambda>ctx args w. (Some execError, w))\<rparr>"

definition initFailsAll :: "(unit, nat) all" where
  "initFailsAll = \<lparr>infoLog = None, builder = goodHandler, archivist = initFailsHandler,
                    releaser = goodHandler\<rparr>"

definition execFailsAll :: "(unit, nat) all" where
  "execFailsAll = \<lparr>infoLog = None, builder = goodHandler, archivist = execFailsHandler,
                    releaser = goodHandler\<rparr>"

definition someSettings :: ReleaseSettings where
  "someSettings = \<lparr>Name = ''v1.0.0'', Repository = ''hugoreleaser'',
                    RepositoryOwner = ''gohugoio'', Draft = False, Prerelease = False,
                    ReleaseNotesFilename = ''notes.md'', GenerateReleaseNotesOnHost = False\<rparr>"

definition someFile :: osFile where
  "someFile = OsFile ''dist/hugoreleaser.tar.gz''"

definition liveClient :: GitHubClient where
  "liveClient = \<lparr>client = github_NewClient ''secret''\<rparr>"

text \<open>A service that answers every call with the given status and error.\<close>

definition failingService :: "Response option \<Rightarrow> Repositories" where
  "failingService resp =
     \<lparr>CreateRelease = (\<lambda>owner repo r. (None, resp, None)),
      UploadReleaseAsset = (\<lambda>owner repo ident name f. (resp, Some (External 1)))\<rparr>"



text \<open>
  A service that rejects every call with status 500 and a library error, and one that
  answers every call with status 200 and no error.
\<close>

definition rejectingService :: Repositories where
  "rejectingService =
     \<lparr>CreateRelease = (\<lambda>owner repo r. (None, Some \<lparr>StatusCode = 500\<rparr>, Some (External 4))),
      UploadReleaseAsset = (\<lambda>owner repo ident name f. (Some \<lparr>StatusCode = 500\<rparr>, Some (External 4)))\<rparr>"

definition okStatusService :: Repositories where
  "okStatusService =
     \<lparr>CreateRelease = (\<lambda>owner repo r. (Some 5, Some \<lparr>StatusCode = 200\<rparr>, None)),
      UploadReleaseAsset = (\<lambda>owner repo ident name f. (Some \<lparr>StatusCode = 200\<rparr>, None))\<rparr>"

section \<open>Auxiliary facts\<close>

text \<open>
  The two loops over a list of handlers of any length. \<open>ws\<close> lists the states that the
  successful calls leave, one after the other, starting from \<open>w\<close>.
\<close>

lemma upt_first: "[n..<Suc (n + m)] = n # [Suc n..<Suc (n + m)]"
  by (simp add: upt_conv_Cons)

lemma initHandlers_fails_at:
  assumes "length ws = length pre"
    and "\<forall>i<length pre. Init (pre ! i) ((w # ws) ! i) = (None, ws ! i)"
    and "Init h (last (w # ws)) = (Some e, w')"
  shows "initHandlers (pre @ h # post) n w tr =
           (Some e, tr @ map (\<lambda>j. InitCall j None) [n..<n + length pre] @
                    [InitCall (n + length pre) (Some e)], w')"
  using assms
proof (induction pre arbitrary: w ws n tr)
  case Nil
  then show ?case by simp
next
  case (Cons p pre)
  from Cons.prems(1) obtain w1 ws' where ws: "ws = w1 # ws'" and len: "length ws' = length pre"
    by (cases ws) auto
  from Cons.prems(2) [rule_format, of 0] ws have p: "Init p w = (None, w1)" by simp
  have step: "\<forall>i<length pre. Init (pre ! i) ((w1 # ws') ! i) = (None, ws' ! i)"
  proof (intro allI impI)
    fix i assume "i < length pre"
    with Cons.prems(2) [rule_format, of "Suc i"] ws
    show "Init (pre ! i) ((w1 # ws') ! i) = (None, ws' ! i)" by simp
  qed
  from Cons.prems(3) ws have lst: "Init h (last (w1 # ws')) = (Some e, w')" by simp
  from Cons.IH [OF len step lst, of "Suc n" "tr @ [InitCall n None]"] p
  show ?case by (simp add: upt_first del: upt_Suc)
qed

lemma initHandlers_all_ok:
  assumes "length ws = length hs"
    and "\<forall>i<length hs. Init (hs ! i) ((w # ws) ! i) = (None, ws ! i)"
  shows "initHandlers hs n w tr =
           (None, tr @ map (\<lambda>j. InitCall j None) [n..<n + length hs], last (w # ws))"
  using assms
proof (induction hs arbitrary: w ws n tr)
  case Nil
  then show ?case by simp
next
  case (Cons p hs)
  from Cons.prems(1) obtain w1 ws' where ws: "ws = w1 # ws'" and len: "length ws' = length hs"
    by (cases ws) auto
  from Cons.prems(2) [rule_format, of 0] ws have p: "Init p w = (None, w1)" by simp
  have step: "\<forall>i<length hs. Init (hs ! i) ((w1 # ws') ! i) = (None, ws' ! i)"
  proof (intro allI impI)
    fix i assume "i < length hs"
    with Cons.prems(2) [rule_format, of "Suc i"] ws
    show "Init (hs ! i) ((w1 # ws') ! i) = (None, ws' ! i)" by simp
  qed
  from Cons.IH [OF len step, of "Suc n" "tr @ [InitCall n None]"] p ws
  show ?case by (simp add: upt_first del: upt_Suc)
qed

lemma execHandlers_fails_at:
  assumes "length ws = length pre"
    and "\<forall>i<length pre. Exec (pre ! i) ctx args ((w # ws) ! i) = (None, ws ! i)"
    and "Exec h ctx args (last (w # ws)) = (Some e, w')"
  shows "execHandlers (pre @ h # post) ctx args n w tr =
           (Some e, tr @ map (\<lambda>j. ExecCall j None) [n..<n + length pre] @
                    [ExecCall (n + length pre) (Some e)], w')"
  using assms
proof (induction pre arbitrary: w ws n tr)
  case Nil
  then show ?case by simp
next
  case (Cons p pre)
  from Cons.prems(1) obtain w1 ws' where ws: "ws = w1 # ws'" and len: "length ws' = length pre"
    by (cases ws) auto
  from Cons.prems(2) [rule_format, of 0] ws have p: "Exec p ctx args w = (None, w1)" by simp
  have step: "\<forall>i<length pre. Exec (pre ! i) ctx args ((w1 # ws') ! i) = (None, ws' ! i)"
  proof (intro allI impI)
    fix i assume "i < length pre"
    with Cons.prems(2) [rule_format, of "Suc i"] ws
    show "Exec (pre ! i) ctx args ((w1 # ws') ! i) = (None, ws' ! i)" by simp
  qed
  from Cons.prems(3) ws have lst: "Exec h ctx args (last (w1 # ws')) = (Some e, w')" by simp
  from Cons.IH [OF len step lst, of "Suc n" "tr @ [ExecCall n None]"] p
  show ?case by (simp add: upt_first del: upt_Suc)
qed

text \<open>
  For a pipeline of any number of handlers: when \<open>Init\<close> succeeds on the handlers \<open>pre\<close>
  and fails on \<open>h\<close>, the run ends there with that error, whatever the later handlers and
  every \<open>Exec\<close> would do; when every \<open>Init\<close> succeeds, and \<open>Exec\<close> succeeds on \<open>pre\<close>
  and fails on \<open>h\<close>, the run ends there with that error.
\<close>

lemma runHandlers_init_fails_at:
  assumes "length ws = length pre"
    and "\<forall>i<length pre. Init (pre ! i) ((w # ws) ! i) = (None, ws ! i)"
    and "Init h (last (w # ws)) = (Some e, w')"
  shows "runHandlers (pre @ h # post) ctx args w =
           (Some e, map (\<lambda>j. InitCall j None) [0..<length pre] @ [InitCall (length pre) (Some e)],
            w')"
  using initHandlers_fails_at [OF assms, of post 0 "[]"] by (simp add: runHandlers_def)

lemma runHandlers_exec_fails_at:
  assumes "length ws = length (pre @ h # post)"
    and "\<forall>i<length (pre @ h # post). Init ((pre @ h # post) ! i) ((w # ws) ! i) = (None, ws ! i)"
    and "length vs = length pre"
    and "\<forall>i<length pre. Exec (pre ! i) ctx args ((last (w # ws) # vs) ! i) = (None, vs ! i)"
    and "Exec h ctx args (last (last (w # ws) # vs)) = (Some e, w')"
  shows "runHandlers (pre @ h # post) ctx args w =
           (Some e,
            map (\<lambda>j. InitCall j None) [0..<length (pre @ h # post)] @
            map (\<lambda>j. ExecCall j None) [0..<length pre] @ [ExecCall (length pre) (Some e)],
            w')"
  using initHandlers_all_ok [OF assms(1,2), of 0 "[]"]
    execHandlers_fails_at [OF assms(3,4,5), of post 0]
  by (simp add: runHandlers_def)

section \<open>The claims\<close>

text \<open>
  C1. A run of the aggregate command \<open>all\<close> over its handlers (0 build, 1 archive,
  2 release), from the state \<open>w\<close>. If \<open>Init\<close> of the builder fails, or \<open>Init\<close> of the builder
  succeeds and that of the archivist fails, or both succeed and that of the releaser
  fails, then the run returns the error that this \<open>Init\<close> returned; the calls made are
  \<open>Init\<close> on the handlers before it, in order, and \<open>Init\<close> on it, and nothing else: no
  \<open>Init\<close> on a later handler and no \<open>Exec\<close> at all. The state left is the one the failing
  \<open>Init\<close> left, and what \<open>Exec\<close> of any handler would do has no part in the result.
\<close>

theorem C1_init_failure_aborts_before_any_exec:
  "(Init (builder a) w = (Some e, w1) \<longrightarrow>
      all_Exec a ctx args w = (Some e, [InitCall 0 (Some e)], w1)) \<and>
   (Init (builder a) w = (None, w1) \<and> Init (archivist a) w1 = (Some e, w2) \<longrightarrow>
      all_Exec a ctx args w = (Some e, [InitCall 0 None, InitCall 1 (Some e)], w2)) \<and>
   (Init (builder a) w = (None, w1) \<and> Init (archivist a) w1 = (None, w2) \<and>
    Init (releaser a) w2 = (Some e, w3) \<longrightarrow>
      all_Exec a ctx args w =
        (Some e, [InitCall 0 None, InitCall 1 None, InitCall 2 (Some e)], w3))"
  by (simp add: all_Exec_def all_Init_def runHandlers_def)

theorem C1_witness:
  "Init (builder initFailsAll) 0 = (None, Suc 0) \<and>
   Init (archivist initFailsAll) (Suc 0) = (Some initError, Suc 0) \<and>
   all_Exec initFailsAll () [] 0 =
     (Some initError, [InitCall 0 None, InitCall 1 (Some initError)], Suc 0)"
proof -
  have h: "Init (builder initFailsAll) 0 = (None, Suc 0) \<and>
      Init (archivist initFailsAll) (Suc 0) = (Some initError, Suc 0)"
    by (simp add: initFailsAll_def goodHandler_def initFailsHandler_def)
  from C1_init_failure_aborts_before_any_exec [of initFailsAll 0 initError "Suc 0" "()" "[]" "Suc 0"] h
  show ?thesis by blast
qed

text \<open>
  C2. A run of \<open>all\<close> in which \<open>Init\<close> succeeds on the builder, the archivist and the
  releaser, in this order. If \<open>Exec\<close> of the builder fails, or \<open>Exec\<close> of the builder
  succeeds and that of the archivist fails, or both succeed and that of the releaser
  fails, then the run returns the very error value that this \<open>Exec\<close> returned; after the
  three calls of \<open>Init\<close>, \<open>Exec\<close> is called on the handlers up to the failing one, in
  order, and on none after it, and the state left is the one the failing \<open>Exec\<close> left.
\<close>

theorem C2_exec_failure_stops_and_returns_error:
  assumes "Init (builder a) w = (None, w1)" and "Init (archivist a) w1 = (None, w2)"
    and "Init (releaser a) w2 = (None, w3)"
  shows
  "(Exec (builder a) ctx args w3 = (Some e, w4) \<longrightarrow>
      all_Exec a ctx args w =
        (Some e, [InitCall 0 None, InitCall 1 None, InitCall 2 None, ExecCall 0 (Some e)], w4)) \<and>
   (Exec (builder a) ctx args w3 = (None, w4) \<and> Exec (archivist a) ctx args w4 = (Some e, w5) \<longrightarrow>
      all_Exec a ctx args w =
        (Some e, [InitCall 0 None, InitCall 1 None, InitCall 2 None, ExecCall 0 None,
                  ExecCall 1 (Some e)], w5)) \<and>
   (Exec (builder a) ctx args w3 = (None, w4) \<and> Exec (archivist a) ctx args w4 = (None, w5) \<and>
    Exec (releaser a) ctx args w5 = (Some e, w6) \<longrightarrow>
      all_Exec a ctx args w =
        (Some e, [InitCall 0 None, InitCall 1 None, InitCall 2 None, ExecCall 0 None,
                  ExecCall 1 None, ExecCall 2 (Some e)], w6))"
  using assms by (simp add: all_Exec_def all_Init_def runHandlers_def)

theorem C2_witness:
  "Init (builder execFailsAll) 0 = (None, 1) \<and> Init (archivist execFailsAll) 1 = (None, 2) \<and>
   Init (releaser execFailsAll) 2 = (None, 3) \<and>
   Exec (builder execFailsAll) () [] 3 = (None, 4) \<and>
   Exec (archivist execFailsAll) () [] 4 = (Some execError, 4) \<and>
   all_Exec execFailsAll () [] 0 =
     (Some execError,
      [InitCall 0 None, InitCall 1 None, InitCall 2 None, ExecCall 0 None,
       ExecCall 1 (Some execError)], 4)"
proof -
  have i1: "Init (builder execFailsAll) 0 = (None, 1)"
    and i2: "Init (archivist execFailsAll) 1 = (None, 2)"
    and i3: "Init (releaser execFailsAll) 2 = (None, 3)"
    and x: "Exec (builder execFailsAll) () [] 3 = (None, 4) \<and>
      Exec (archivist execFailsAll) () [] 4 = (Some execError, 4)"
    by (simp_all add: execFailsAll_def goodHandler_def execFailsHandler_def)
  from C2_exec_failure_stops_and_returns_error [OF i1 i2 i3, of "()" "[]" execError 4 4] x
  have "all_Exec execFailsAll () [] 0 =
     (Some execError,
      [InitCall 0 None, InitCall 1 None, InitCall 2 None, ExecCall 0 None,
       ExecCall 1 (Some execError)], 4)" by blast
  with i1 i2 i3 x show ?thesis by blast
qed

text \<open>
  C3. For every integer status code the classifier answers "not temporary" (fatal) exactly
  for 422 (unprocessable entity) and 400 (bad request); every other status code is
  classified temporary (retryable).
\<close>

theorem C3_classifier_deny_list:
  "(isTemporaryHttpStatus status = False) = (status = 422 \<or> status = 400)"
  by (simp add: isTemporaryHttpStatus_def StatusUnprocessableEntity_def StatusBadRequest_def)

subsection \<open>One upload attempt\<close>

text \<open>
  What holds of the function literal of \<open>UploadAssetsFileWithRetries\<close>: the file is
  opened first; an error of \<open>openFile\<close> ends the attempt, not to be retried; otherwise the
  handle that \<open>openFile\<close> gave is closed last, whatever the upload did. An error that the
  upload wrapped in \<open>TemporaryError\<close> is compared with the empty wrapper
  \<open>TemporaryError{}\<close>, which it never equals, and the wrapper gives \<open>errors.Is\<close> nothing to
  unwrap: the attempt is answered as not to be retried.
\<close>

lemma errors_Is_TemporaryError_wrapped:
  "errors_Is (TemporaryError (Some e)) (TemporaryError None) = False"
  by simp

lemma uploadAttempt_open_fails:
  "openFile () = (f, Some e) \<Longrightarrow> uploadAttempt openFile upload = (Returns (Some e, False), [OpenFile])"
  by (simp add: uploadAttempt_def)

lemma uploadAttempt_closes_file:
  "openFile () = (f, None) \<Longrightarrow>
   snd (uploadAttempt openFile upload) = [OpenFile] @ snd (upload f) @ [CloseFile f]"
  by (cases "upload f") (simp add: uploadAttempt_def split: go.splits)

lemma uploadAttempt_wrapped_error_not_retryable:
  "openFile () = (f, None) \<Longrightarrow> fst (upload f) = Returns (Some (TemporaryError (Some e))) \<Longrightarrow>
   fst (uploadAttempt openFile upload) = Returns (Some (TemporaryError (Some e)), False)"
  by (cases "upload f") (simp add: uploadAttempt_def)

lemma live_upload_failure_never_retryable:
  assumes "openFile () = (Some file, None)"
    and "UploadReleaseAsset api (RepositoryOwner settings) (Repository settings) ident
           (filepath_Base (File_Name file)) file = (resp, Some e)"
    and "resp = None \<or> isTemporaryHttpStatus (StatusCode (the resp))"
  shows "fst (UploadAssetsFile_attempt api (GitHubClientC c) settings ident openFile) =
           Returns (Some (TemporaryError (Some e)), False)"
  using assms
  by (auto simp: UploadAssetsFile_attempt_def uploadAttempt_def GitHubClient_UploadAssetsFile_def
      Let_def split: option.splits)

text \<open>
  C4. One attempt of the upload with retries, with the live client, when the service
  answers the upload with status 503 and an error: the file is opened, the upload is
  made, the file is closed, and the error comes back wrapped in \<open>TemporaryError\<close>. The
  attempt answers \<open>false\<close> for "retry", where the function's description ("retries on
  temporary errors") asks for \<open>true\<close>: \<open>errors.Is(err, TemporaryError{})\<close> does not hold
  of a wrapper around an actual error.
\<close>

theorem C4_wrapped_upload_error_reported_not_retryable:
  "UploadAssetsFile_attempt (failingService (Some \<lparr>StatusCode = 503\<rparr>)) (GitHubClientC liveClient)
       someSettings 7 (\<lambda>u. (Some someFile, None)) =
     (Returns (Some (TemporaryError (Some (External 1))), False),
      [OpenFile,
       UploadReleaseAssetCall ''gohugoio'' ''hugoreleaser'' 7 ''hugoreleaser.tar.gz'' someFile,
       CloseFile (Some someFile)])"
  by (simp add: UploadAssetsFile_attempt_def uploadAttempt_def GitHubClient_UploadAssetsFile_def
      failingService_def someSettings_def someFile_def filepath_Base_def
      isTemporaryHttpStatus_def StatusUnprocessableEntity_def StatusBadRequest_def)

subsection \<open>The live client\<close>

lemma TemporaryError_not_self: "TemporaryError (Some e) \<noteq> e"
proof
  assume "TemporaryError (Some e) = e"
  then have "size (TemporaryError (Some e)) = size e" by simp
  then show False by simp
qed

lemma Release_submit_bad_status:
  assumes "CreateRelease api (RepositoryOwner settings) (Repository settings)
             (releaseRequest tagName committish settings body) = (rel, Some resp, None)"
    and "StatusCode resp \<noteq> 201"
  shows "fst (Release_submit api tagName committish settings body io1) =
           Returns (0, Some (Errorf ''github: unexpected status code: %d'' [IntArg (StatusCode resp)]))"
  using assms by (simp add: Release_submit_def StatusCreated_def Let_def)

lemma Release_submit_library_error:
  assumes "CreateRelease api (RepositoryOwner settings) (Repository settings)
             (releaseRequest tagName committish settings body) = (rel, resp, Some e)"
  shows "fst (Release_submit api tagName committish settings body io1) = Returns (0, Some e)"
  using assms by (simp add: Release_submit_def Let_def split: option.splits)

lemma Release_after_notes:
  assumes "(if ReleaseNotesFilename settings \<noteq> '''' then readFile (ReleaseNotesFilename settings)
            else Inr '''') = Inr body"
  shows "fst (GitHubClient_Release readFile api c tagName committish settings) =
         fst (Release_submit api tagName committish settings body
                (if ReleaseNotesFilename settings \<noteq> ''''
                 then [ReadFile (ReleaseNotesFilename settings)] else []))"
  using assms by (auto simp: GitHubClient_Release_def)

text \<open>
  C5. \<open>Release\<close> of the live client. With a release-notes file name configured, the file
  is read first, and an error of that read is returned at once, with identifier 0 and
  without a call to the service. When the notes are at hand (none configured, or read):
  if the client library answers the call with an error (as it does for every status
  outside 2xx), that error is returned as it is, with identifier 0, and not wrapped in
  \<open>TemporaryError\<close>; if the library answers without error but with a status other than
  201, the result is identifier 0 and the error "github: unexpected status code", which
  is no \<open>TemporaryError\<close> and is not matched by the test for one.
\<close>

theorem C5_createRelease_errors_are_fatal:
  "(ReleaseNotesFilename settings \<noteq> '''' \<and> readFile (ReleaseNotesFilename settings) = Inl e \<longrightarrow>
      GitHubClient_Release readFile api c tagName committish settings =
        (Returns (0, Some e), [ReadFile (ReleaseNotesFilename settings)])) \<and>
   (ReleaseNotesFilename settings \<noteq> '''' \<longrightarrow>
      hd (snd (GitHubClient_Release readFile api c tagName committish settings)) =
        ReadFile (ReleaseNotesFilename settings)) \<and>
   ((if ReleaseNotesFilename settings \<noteq> '''' then readFile (ReleaseNotesFilename settings)
     else Inr '''') = Inr body \<and>
    CreateRelease api (RepositoryOwner settings) (Repository settings)
      (releaseRequest tagName committish settings body) = (rel, respo, Some e') \<longrightarrow>
      fst (GitHubClient_Release readFile api c tagName committish settings) = Returns (0, Some e') \<and>
      fst (GitHubClient_Release readFile api c tagName committish settings) \<noteq>
        Returns (0, Some (TemporaryError (Some e')))) \<and>
   ((if ReleaseNotesFilename settings \<noteq> '''' then readFile (ReleaseNotesFilename settings)
     else Inr '''') = Inr body \<and>
    CreateRelease api (RepositoryOwner settings) (Repository settings)
      (releaseRequest tagName committish settings body) = (rel, Some resp, None) \<and>
    StatusCode resp \<noteq> 201 \<longrightarrow>
      fst (GitHubClient_Release readFile api c tagName committish settings) =
        Returns (0, Some (Errorf ''github: unexpected status code: %d'' [IntArg (StatusCode resp)])) \<and>
      (\<forall>x. Errorf ''github: unexpected status code: %d'' [IntArg (StatusCode resp)] \<noteq> TemporaryError x) \<and>
      \<not> errors_Is (Errorf ''github: unexpected status code: %d'' [IntArg (StatusCode resp)])
           (TemporaryError None))"
proof (intro conjI impI)
  assume "ReleaseNotesFilename settings \<noteq> '''' \<and> readFile (ReleaseNotesFilename settings) = Inl e"
  then show "GitHubClient_Release readFile api c tagName committish settings =
      (Returns (0, Some e), [ReadFile (ReleaseNotesFilename settings)])"
    by (simp add: GitHubClient_Release_def)
next
  assume "ReleaseNotesFilename settings \<noteq> ''''"
  then show "hd (snd (GitHubClient_Release readFile api c tagName committish settings)) =
      ReadFile (ReleaseNotesFilename settings)"
    by (simp add: GitHubClient_Release_def Release_submit_def Let_def
        split: sum.splits prod.splits option.splits)
next
  assume a: "(if ReleaseNotesFilename settings \<noteq> '''' then readFile (ReleaseNotesFilename settings)
       else Inr '''') = Inr body \<and>
    CreateRelease api (RepositoryOwner settings) (Repository settings)
      (releaseRequest tagName committish settings body) = (rel, respo, Some e')"
  then have nts: "(if ReleaseNotesFilename settings \<noteq> ''''
      then readFile (ReleaseNotesFilename settings) else Inr '''') = Inr body"
    and cr: "CreateRelease api (RepositoryOwner settings) (Repository settings)
      (releaseRequest tagName committish settings body) = (rel, respo, Some e')" by simp_all
  from Release_after_notes [of settings readFile body api c tagName committish, OF nts] Release_submit_library_error [OF cr]
  show bare: "fst (GitHubClient_Release readFile api c tagName committish settings) =
      Returns (0, Some e')" by simp
  show "fst (GitHubClient_Release readFile api c tagName committish settings) \<noteq>
      Returns (0, Some (TemporaryError (Some e')))"
    unfolding bare using TemporaryError_not_self [of e'] by simp
next
  assume a: "(if ReleaseNotesFilename settings \<noteq> '''' then readFile (ReleaseNotesFilename settings)
       else Inr '''') = Inr body \<and>
    CreateRelease api (RepositoryOwner settings) (Repository settings)
      (releaseRequest tagName committish settings body) = (rel, Some resp, None) \<and>
    StatusCode resp \<noteq> 201"
  then have nts: "(if ReleaseNotesFilename settings \<noteq> ''''
      then readFile (ReleaseNotesFilename settings) else Inr '''') = Inr body"
    and cr: "CreateRelease api (RepositoryOwner settings) (Repository settings)
      (releaseRequest tagName committish settings body) = (rel, Some resp, None)"
    and st: "StatusCode resp \<noteq> 201" by simp_all
  from Release_after_notes [of settings readFile body api c tagName committish, OF nts] Release_submit_bad_status [OF cr st]
  show "fst (GitHubClient_Release readFile api c tagName committish settings) =
      Returns (0, Some (Errorf ''github: unexpected status code: %d'' [IntArg (StatusCode resp)]))"
    by simp
next
  show "\<forall>x. Errorf ''github: unexpected status code: %d'' [IntArg (StatusCode resp)] \<noteq> TemporaryError x"
    by simp
next
  show "\<not> errors_Is (Errorf ''github: unexpected status code: %d'' [IntArg (StatusCode resp)])
           (TemporaryError None)"
    by simp
qed

theorem C5_witness:
  "GitHubClient_Release (\<lambda>p. Inl (External 2)) rejectingService liveClient ''v1.0.0'' ''main''
       someSettings = (Returns (0, Some (External 2)), [ReadFile ''notes.md'']) \<and>
   fst (GitHubClient_Release (\<lambda>p. Inr ''Notes'') rejectingService liveClient ''v1.0.0'' ''main''
          someSettings) = Returns (0, Some (External 4)) \<and>
   fst (GitHubClient_Release (\<lambda>p. Inr ''Notes'') okStatusService liveClient ''v1.0.0'' ''main''
          someSettings) =
     Returns (0, Some (Errorf ''github: unexpected status code: %d'' [IntArg 200]))"
proof -
  have a: "ReleaseNotesFilename someSettings \<noteq> '''' \<and>
      (\<lambda>p. Inl (External 2) :: err + string) (ReleaseNotesFilename someSettings) = Inl (External 2)"
    by (simp add: someSettings_def)
  have b: "(if ReleaseNotesFilename someSettings \<noteq> ''''
            then (\<lambda>p. Inr ''Notes'' :: err + string) (ReleaseNotesFilename someSettings)
            else Inr '''') = Inr ''Notes'' \<and>
      CreateRelease rejectingService (RepositoryOwner someSettings)
        (Repository someSettings) (releaseRequest ''v1.0.0'' ''main'' someSettings ''Notes'') =
        (None, Some \<lparr>StatusCode = 500\<rparr>, Some (External 4))"
    by (simp add: someSettings_def rejectingService_def)
  have d: "(if ReleaseNotesFilename someSettings \<noteq> ''''
            then (\<lambda>p. Inr ''Notes'' :: err + string) (ReleaseNotesFilename someSettings)
            else Inr '''') = Inr ''Notes'' \<and>
      CreateRelease okStatusService (RepositoryOwner someSettings)
        (Repository someSettings) (releaseRequest ''v1.0.0'' ''main'' someSettings ''Notes'') =
        (Some 5, Some \<lparr>StatusCode = 200\<rparr>, None) \<and>
      StatusCode \<lparr>StatusCode = 200\<rparr> \<noteq> 201"
    by (simp add: someSettings_def okStatusService_def)
  from a
    C5_createRelease_errors_are_fatal [where settings = someSettings
      and readFile = "\<lambda>p. Inl (External 2)" and e = "External 2"
      and api = rejectingService and c = liveClient
      and tagName = "''v1.0.0''" and committish = "''main''"]
  have first: "GitHubClient_Release (\<lambda>p. Inl (External 2)) rejectingService liveClient
      ''v1.0.0'' ''main'' someSettings =
      (Returns (0, Some (External 2)), [ReadFile (ReleaseNotesFilename someSettings)])"
    by blast
  from b
    C5_createRelease_errors_are_fatal [where settings = someSettings
      and readFile = "\<lambda>p. Inr ''Notes''" and body = "''Notes''"
      and api = rejectingService and c = liveClient
      and tagName = "''v1.0.0''" and committish = "''main''" and rel = None
      and respo = "Some \<lparr>StatusCode = 500\<rparr>" and e' = "External 4"]
  have second: "fst (GitHubClient_Release (\<lambda>p. Inr ''Notes'') rejectingService liveClient
      ''v1.0.0'' ''main'' someSettings) = Returns (0, Some (External 4))"
    by blast
  from d
    C5_createRelease_errors_are_fatal [where settings = someSettings
      and readFile = "\<lambda>p. Inr ''Notes''" and body = "''Notes''"
      and api = okStatusService and c = liveClient
      and tagName = "''v1.0.0''" and committish = "''main''" and rel = "Some 5"
      and resp = "\<lparr>StatusCode = 200\<rparr>"]
  have third: "fst (GitHubClient_Release (\<lambda>p. Inr ''Notes'') okStatusService liveClient
      ''v1.0.0'' ''main'' someSettings) =
      Returns (0, Some (Errorf ''github: unexpected status code: %d''
        [IntArg (StatusCode \<lparr>StatusCode = 200\<rparr>)]))"
    by blast
  from first second third show ?thesis by (simp add: someSettings_def)
qed

subsection \<open>The dry-run client and the factory\<close>

text \<open>
  When the generator draws 0, the identifier that the dry-run client fabricates is 0.
\<close>

theorem C6_zero_identifier:
  "fst (fst (fst (FakeClient_Release \<lparr>releaseID = 7\<rparr> 0 ''v1.0.0'' ''main'' someSettings))) = 0"
  by (simp add: FakeClient_Release_def)

text \<open>
  C6 (amended). \<open>Release\<close> of the dry-run client returns the identifier that the
  pseudo-random generator draws (any value of the generator, zero included), with no
  error, records it in the client, and logs no call to the service; nor does its
  \<open>UploadAssetsFile\<close>. After it, an upload fails with the identifier-mismatch error
  exactly when the identifier passed differs from the recorded one, fails when the file
  handle is nil, and returns no error for the recorded identifier and a file handle.
\<close>

theorem C6_dry_run_release_then_upload:
  "fst (FakeClient_Release c drawn tagName committish settings) =
     ((drawn, None), c\<lparr>releaseID := drawn\<rparr>) \<and>
   (\<forall>ev \<in> set (snd (FakeClient_Release c drawn tagName committish settings)). \<not> isNetwork ev) \<and>
   snd (Client_UploadAssetsFile api (FakeClientC (c\<lparr>releaseID := drawn\<rparr>)) settings f ident) = [] \<and>
   ((FakeClient_UploadAssetsFile (c\<lparr>releaseID := drawn\<rparr>) settings f ident =
       Some (Errorf ''fake: releaseID mismatch: %d != %d'' [IntArg (sint drawn), IntArg (sint ident)]))
     = (ident \<noteq> drawn)) \<and>
   FakeClient_UploadAssetsFile (c\<lparr>releaseID := drawn\<rparr>) settings None ident \<noteq> None \<and>
   (f \<noteq> None \<longrightarrow> FakeClient_UploadAssetsFile (c\<lparr>releaseID := drawn\<rparr>) settings f drawn = None)"
  by (auto simp: FakeClient_Release_def FakeClient_UploadAssetsFile_def)

theorem C6_witness:
  "fst (FakeClient_Release \<lparr>releaseID = 0\<rparr> 42 ''v1.0.0'' ''main'' someSettings) =
     ((42, None), \<lparr>releaseID = 42\<rparr>) \<and>
   FakeClient_UploadAssetsFile \<lparr>releaseID = 42\<rparr> someSettings (Some someFile) 43 =
     Some (Errorf ''fake: releaseID mismatch: %d != %d'' [IntArg 42, IntArg 43]) \<and>
   FakeClient_UploadAssetsFile \<lparr>releaseID = 42\<rparr> someSettings None 42 \<noteq> None \<and>
   FakeClient_UploadAssetsFile \<lparr>releaseID = 42\<rparr> someSettings (Some someFile) 42 = None"
  using C6_dry_run_release_then_upload [where c = "\<lparr>releaseID = 0\<rparr>" and drawn = 42
      and tagName = "''v1.0.0''" and committish = "''main''" and settings = someSettings
      and f = "Some someFile" and ident = 43]
    C6_dry_run_release_then_upload [where c = "\<lparr>releaseID = 0\<rparr>" and drawn = 42
      and settings = someSettings and f = "Some someFile" and ident = 42]
  by simp

text \<open>
  C7. \<open>NewClient\<close>: for a release type other than \<open>GitHub\<close> it returns the error "only
  github is supported" and reads nothing; for an empty \<open>GITHUB_TOKEN\<close> it returns no
  client and an error (for type \<open>GitHub\<close>, the error "missing env var"); for the token
  \<open>faketoken\<close> it returns the dry-run client with identifier 0; for any other token the
  live client built from that token. No branch calls the service.
\<close>

theorem C7_client_factory:
  "(typ \<noteq> GitHub \<longrightarrow>
      NewClient getenv typ =
        ((None, Some (Errorf ''github: only github is supported for now'' [])), [])) \<and>
   (getenv ''GITHUB_TOKEN'' = '''' \<longrightarrow>
      fst (fst (NewClient getenv typ)) = None \<and> snd (fst (NewClient getenv typ)) \<noteq> None) \<and>
   (typ = GitHub \<and> getenv ''GITHUB_TOKEN'' = '''' \<longrightarrow>
      fst (NewClient getenv typ) =
        (None, Some (Errorf ''github: missing %q env var'' [StrArg ''GITHUB_TOKEN'']))) \<and>
   (typ = GitHub \<and> getenv ''GITHUB_TOKEN'' = ''faketoken'' \<longrightarrow>
      fst (NewClient getenv typ) = (Some (FakeClientC \<lparr>releaseID = 0\<rparr>), None)) \<and>
   (typ = GitHub \<and> getenv ''GITHUB_TOKEN'' \<noteq> '''' \<and> getenv ''GITHUB_TOKEN'' \<noteq> ''faketoken'' \<longrightarrow>
      fst (NewClient getenv typ) =
        (Some (GitHubClientC \<lparr>client = github_NewClient (getenv ''GITHUB_TOKEN'')\<rparr>), None)) \<and>
   (\<forall>ev \<in> set (snd (NewClient getenv typ)). \<not> isNetwork ev)"
  by (simp add: NewClient_def tokenEnvVar_def Let_def)

theorem C7_witness:
  "NewClient (\<lambda>name. ''secret'') (OtherType 0) =
     ((None, Some (Errorf ''github: only github is supported for now'' [])), []) \<and>
   fst (NewClient (\<lambda>name. '''') GitHub) =
     (None, Some (Errorf ''github: missing %q env var'' [StrArg ''GITHUB_TOKEN''])) \<and>
   fst (NewClient (\<lambda>name. ''faketoken'') GitHub) = (Some (FakeClientC \<lparr>releaseID = 0\<rparr>), None) \<and>
   fst (NewClient (\<lambda>name. ''secret'') GitHub) =
     (Some (GitHubClientC \<lparr>client = github_NewClient ''secret''\<rparr>), None)"
  using C7_client_factory [of "OtherType 0" "\<lambda>name. ''secret''"]
    C7_client_factory [of GitHub "\<lambda>name. ''''"]
    C7_client_factory [of GitHub "\<lambda>name. ''faketoken''"]
    C7_client_factory [of GitHub "\<lambda>name. ''secret''"]
  by simp

subsection \<open>The top-level run\<close>



subsection \<open>Two further facts about the clients\<close>

text \<open>
  C9. The dry-run client as \<open>NewClient\<close> constructs it has the recorded identifier 0.
  Without any call of \<open>Release\<close>, its \<open>UploadAssetsFile\<close> with identifier 0 and a file
  handle returns no error.
\<close>

theorem C9_fresh_dry_run_client_accepts_zero:
  "fst (NewClient (\<lambda>name. ''faketoken'') GitHub) = (Some (FakeClientC \<lparr>releaseID = 0\<rparr>), None) \<and>
   FakeClient_UploadAssetsFile \<lparr>releaseID = 0\<rparr> settings (Some f) 0 = None \<and>
   Client_UploadAssetsFile api (FakeClientC \<lparr>releaseID = 0\<rparr>) settings (Some f) 0 = (Returns None, [])"
  by (simp add: NewClient_def FakeClient_UploadAssetsFile_def tokenEnvVar_def)

text \<open>
  C10. \<open>UploadAssetsFile\<close> of the live client, called with a file handle: when the
  service answers with an error and no response at all, the error is returned wrapped in
  \<open>TemporaryError\<close>. There is no status code in this case, so the classifier has no part
  in it.
\<close>

theorem C10_no_response_wrapped_temporary:
  assumes "UploadReleaseAsset api (RepositoryOwner settings) (Repository settings) ident
             (filepath_Base (File_Name file)) file = (None, Some e)"
  shows "fst (GitHubClient_UploadAssetsFile api c settings (Some file) ident) =
           Returns (Some (TemporaryError (Some e)))"
  using assms by (simp add: GitHubClient_UploadAssetsFile_def)

theorem C10_witness:
  "UploadReleaseAsset (failingService None) (RepositoryOwner someSettings) (Repository someSettings) 7
       (filepath_Base (File_Name someFile)) someFile = (None, Some (External 1)) \<and>
   fst (GitHubClient_UploadAssetsFile (failingService None) liveClient someSettings (Some someFile) 7) =
     Returns (Some (TemporaryError (Some (External 1))))"
proof -
  have h: "UploadReleaseAsset (failingService None) (RepositoryOwner someSettings)
      (Repository someSettings) 7 (filepath_Base (File_Name someFile)) someFile =
      (None, Some (External 1))"
    by (simp add: failingService_def)
  from C10_no_response_wrapped_temporary [OF h] h show ?thesis by simp
qed

end
